theory Spec2Isabelle
  imports Complex_Main "HOL-Library.Sublist"
begin

section \<open>Python values, exceptions and the outside world\<close>

text \<open>
  The credential handler of \<^verbatim>\<open>src/zoho_auth.py\<close> (class \<^verbatim>\<open>ZohoAuth\<close>) keeps four
  in-memory fields, one JSON file on disk, and talks to the provider by HTTP POST and to
  the resource owner through a local callback listener. Every value it stores comes out of
  \<^verbatim>\<open>json.load\<close> or \<^verbatim>\<open>response.json()\<close>, so a field holds any JSON value; Python's
  \<^verbatim>\<open>None\<close> is \<open>JNull\<close>. Numbers (Python \<^verbatim>\<open>int\<close> and \<^verbatim>\<open>float\<close>, and the clock
  \<^verbatim>\<open>time.time()\<close>) are exact reals: floating-point rounding is not modelled.
\<close>

datatype json =
    JNull
  | JBool bool
  | JNum real
  | JStr string
  | JArr "json list"
  | JObj "(string \<times> json) list"

text \<open>Python truthiness, as used by \<^verbatim>\<open>not x\<close>, \<^verbatim>\<open>x or y\<close> and \<^verbatim>\<open>if x\<close>.\<close>

fun truthy :: "json \<Rightarrow> bool" where
  "truthy JNull = False"
| "truthy (JBool b) = b"
| "truthy (JNum r) = (r \<noteq> 0)"
| "truthy (JStr s) = (s \<noteq> [])"
| "truthy (JArr xs) = (xs \<noteq> [])"
| "truthy (JObj kvs) = (kvs \<noteq> [])"

definition py_or :: "json \<Rightarrow> json \<Rightarrow> json" where
  "py_or x y = (if truthy x then x else y)"

text \<open>The exceptions the code can meet; all are subclasses of \<^verbatim>\<open>Exception\<close>.\<close>

datatype exn = TypeError | AttributeError | OSError | JSONDecodeError | RequestException

text \<open>
  \<^verbatim>\<open>float + v\<close> and \<^verbatim>\<open>v - int\<close>: defined on numbers and on booleans (a subclass of
  \<^verbatim>\<open>int\<close>), a \<^verbatim>\<open>TypeError\<close> on everything else.
\<close>

fun as_number :: "json \<Rightarrow> exn + real" where
  "as_number (JNum r) = Inr r"
| "as_number (JBool b) = Inr (if b then 1 else 0)"
| "as_number v = Inl TypeError"

definition py_add :: "real \<Rightarrow> json \<Rightarrow> exn + real" where
  "py_add t v = (case as_number v of Inl e \<Rightarrow> Inl e | Inr r \<Rightarrow> Inr (t + r))"

definition py_sub :: "json \<Rightarrow> real \<Rightarrow> exn + real" where
  "py_sub v d = (case as_number v of Inl e \<Rightarrow> Inl e | Inr r \<Rightarrow> Inr (r - d))"

text \<open>
  \<^verbatim>\<open>d.get(k, default)\<close> on a dict, which is a list of pairs with distinct keys;
  \<^verbatim>\<open>d.get(k)\<close> is the default \<open>JNull\<close>.
\<close>

definition dict_get :: "(string \<times> json) list \<Rightarrow> string \<Rightarrow> json \<Rightarrow> json" where
  "dict_get kvs k d = (case map_of kvs k of None \<Rightarrow> d | Some v \<Rightarrow> v)"

subsection \<open>The world outside the process\<close>

text \<open>
  A file, or an HTTP response body, is represented by what \<^verbatim>\<open>json.load\<close> makes of its
  text: \<open>Invalid_json\<close> is any text the parser rejects (the empty file that
  \<^verbatim>\<open>open(path, 'w')\<close> leaves behind is one), \<open>Json_text v\<close> a text that parses to \<open>v\<close>
  (what \<^verbatim>\<open>json.dump\<close> of \<open>v\<close> writes).
\<close>

datatype content = Invalid_json | Json_text json

datatype fs_op = MakeDirs | OpenRead | OpenWrite | Dump | Remove

record request =
  url :: string
  form :: "(string \<times> json) list"

datatype http_outcome = NetworkError | Response int content

text \<open>
  A GET arriving at the callback listener: the request target, and what
  \<^verbatim>\<open>parse_qs(urlparse(self.path).query)\<close> returns for it.
\<close>

record http_get =
  target :: string
  query :: "(string \<times> string list) list"

datatype level = INFO | WARNING | ERROR

text \<open>
  What the process does to the outside, in program order: a log record, a POST, the block
  of \<^verbatim>\<open>print\<close> calls that opens \<^verbatim>\<open>authorize_interactive\<close> (with the URL it shows), the
  bind of the listener socket, the browser launch, a single \<^verbatim>\<open>print\<close>, and a response
  of the callback handler with its status.
\<close>

datatype event =
    Log level string
  | HttpPost request
  | Banner request
  | ListenerBound
  | BrowserOpen request
  | Print string
  | Served int

text \<open>
  The world: the clock, the file system (path to content), which file operations fail with
  \<^verbatim>\<open>OSError\<close>, how the provider answers a POST, whether port 8080 can be bound, the
  requests that will reach the listener with their arrival times, and two observers: the
  trace of effects in program order, and every state the file system went through.
\<close>

record world =
  now :: real
  files :: "string \<Rightarrow> content option"
  fs_fails :: "fs_op \<Rightarrow> bool"
  http :: "request \<Rightarrow> http_outcome"
  port_free :: bool
  inbox :: "(real \<times> http_get) list"
  trace :: "event list"
  disk_history :: "(string \<Rightarrow> content option) list"

definition logger :: "level \<Rightarrow> string \<Rightarrow> world \<Rightarrow> world" where
  "logger l m w = w\<lparr>trace := trace w @ [Log l m]\<rparr>"

definition set_files :: "(string \<Rightarrow> content option) \<Rightarrow> world \<Rightarrow> world" where
  "set_files fs w = w\<lparr>files := fs, disk_history := disk_history w @ [fs]\<rparr>"

definition path_exists :: "world \<Rightarrow> string \<Rightarrow> bool" where
  "path_exists w p = (files w p \<noteq> None)"

text \<open>\<^verbatim>\<open>with open(p, 'r') as f: json.load(f)\<close>\<close>

definition read_json :: "world \<Rightarrow> string \<Rightarrow> exn + json" where
  "read_json w p =
     (if fs_fails w OpenRead then Inl OSError
      else case files w p of
             None \<Rightarrow> Inl OSError
           | Some Invalid_json \<Rightarrow> Inl JSONDecodeError
           | Some (Json_text v) \<Rightarrow> Inr v)"

text \<open>\<^verbatim>\<open>os.makedirs(dirname or '.', exist_ok=True)\<close>; directories are not modelled.\<close>

definition makedirs :: "world \<Rightarrow> exn + world" where
  "makedirs w = (if fs_fails w MakeDirs then Inl OSError else Inr w)"

text \<open>\<^verbatim>\<open>open(p, 'w')\<close> creates or truncates the file at \<open>p\<close> itself.\<close>

definition open_w :: "world \<Rightarrow> string \<Rightarrow> exn + world" where
  "open_w w p =
     (if fs_fails w OpenWrite then Inl OSError
      else Inr (set_files ((files w)(p \<mapsto> Invalid_json)) w))"

text \<open>
  \<^verbatim>\<open>json.dump(v, f, indent=2)\<close> and the close of the \<^verbatim>\<open>with\<close> block. A failure (a full
  disk) leaves the truncated or partly written file behind.
\<close>

definition json_dump :: "world \<Rightarrow> string \<Rightarrow> json \<Rightarrow> exn + world" where
  "json_dump w p v =
     (if fs_fails w Dump then Inl OSError
      else Inr (set_files ((files w)(p \<mapsto> Json_text v)) w))"

definition remove :: "world \<Rightarrow> string \<Rightarrow> exn + world" where
  "remove w p =
     (if fs_fails w Remove \<or> files w p = None then Inl OSError
      else Inr (set_files ((files w)(p := None)) w))"

text \<open>\<^verbatim>\<open>requests.post(url, data=data)\<close>: the request is sent, then answered or not.\<close>

definition post :: "world \<Rightarrow> string \<Rightarrow> (string \<times> json) list \<Rightarrow> (exn + int \<times> content) \<times> world" where
  "post w u d =
     (let r = \<lparr>url = u, form = d\<rparr>;
          w' = w\<lparr>trace := trace w @ [HttpPost r]\<rparr>
      in case http w r of
           NetworkError \<Rightarrow> (Inl RequestException, w')
         | Response st body \<Rightarrow> (Inr (st, body), w'))"

section \<open>The credential handler\<close>

record zoho_auth =
  client_id :: string
  client_secret :: string
  redirect_uri :: string
  scope :: string
  token_file_path :: string
  api_domain :: string
  accounts_domain :: string
  access_token :: json
  refresh_token :: json
  token_expires_at :: json
  api_domain_for_tokens :: json

subsection \<open>Token store: load and save\<close>

text \<open>The \<^verbatim>\<open>try\<close> block of \<^verbatim>\<open>_load_tokens\<close>; a value without \<^verbatim>\<open>.get\<close> raises.\<close>

definition load_tokens_try :: "zoho_auth \<Rightarrow> world \<Rightarrow> (exn + unit) \<times> zoho_auth \<times> world" where
  "load_tokens_try a w =
     (case read_json w (token_file_path a) of
        Inl e \<Rightarrow> (Inl e, a, w)
      | Inr (JObj tokens) \<Rightarrow>
          (Inr (),
           a\<lparr>access_token := dict_get tokens ''access_token'' JNull,
             refresh_token := dict_get tokens ''refresh_token'' JNull,
             token_expires_at := dict_get tokens ''expires_at'' JNull,
             api_domain_for_tokens := dict_get tokens ''api_domain'' (JStr (api_domain a))\<rparr>,
           logger INFO ''Loaded existing tokens from file'' w)
      | Inr _ \<Rightarrow> (Inl AttributeError, a, w))"

definition load_tokens :: "zoho_auth \<Rightarrow> world \<Rightarrow> (exn + unit) \<times> zoho_auth \<times> world" where
  "load_tokens a w =
     (if path_exists w (token_file_path a) then
        (case load_tokens_try a w of
           (Inl e, a', w') \<Rightarrow> (Inr (), a', logger ERROR ''Failed to load tokens'' w')
         | (Inr u, a', w') \<Rightarrow> (Inr u, a', w'))
      else (Inr (), a, w))"

text \<open>\<^verbatim>\<open>ZohoAuth.__init__\<close>: the configuration, four empty fields, then the load.\<close>

definition init :: "string \<Rightarrow> string \<Rightarrow> string \<Rightarrow> string \<Rightarrow> string \<Rightarrow> string \<Rightarrow> string \<Rightarrow> world
    \<Rightarrow> (exn + unit) \<times> zoho_auth \<times> world" where
  "init cid secret redirect sc path api accounts w =
     load_tokens
       \<lparr>client_id = cid, client_secret = secret, redirect_uri = redirect, scope = sc,
        token_file_path = path, api_domain = api, accounts_domain = accounts,
        access_token = JNull, refresh_token = JNull, token_expires_at = JNull,
        api_domain_for_tokens = JNull\<rparr> w"

text \<open>The dictionary \<^verbatim>\<open>token_data\<close> that \<^verbatim>\<open>_save_tokens\<close> builds and writes.\<close>

definition token_data :: "zoho_auth \<Rightarrow> real \<Rightarrow> (string \<times> json) list \<Rightarrow> (string \<times> json) list" where
  "token_data a expires_at tokens =
     [(''access_token'', dict_get tokens ''access_token'' JNull),
      (''refresh_token'', dict_get tokens ''refresh_token'' (refresh_token a)),
      (''expires_at'', JNum expires_at),
      (''api_domain'',
         dict_get tokens ''api_domain'' (py_or (api_domain_for_tokens a) (JStr (api_domain a)))),
      (''token_type'', dict_get tokens ''token_type'' (JStr ''Bearer'')),
      (''scope'', dict_get tokens ''scope'' (JStr (scope a)))]"

text \<open>The \<^verbatim>\<open>try\<close> block of \<^verbatim>\<open>_save_tokens\<close>, statement by statement.\<close>

definition save_tokens_try :: "zoho_auth \<Rightarrow> world \<Rightarrow> json \<Rightarrow> (exn + unit) \<times> zoho_auth \<times> world" where
  "save_tokens_try a w tokens =
     (case tokens of
        JObj kvs \<Rightarrow>
          (case py_add (now w) (dict_get kvs ''expires_in'' (JNum 3600)) of
             Inl e \<Rightarrow> (Inl e, a, w)
           | Inr expires_at \<Rightarrow>
               (let td = token_data a expires_at kvs in
                case makedirs w of
                  Inl e \<Rightarrow> (Inl e, a, w)
                | Inr w1 \<Rightarrow>
                    (case open_w w1 (token_file_path a) of
                       Inl e \<Rightarrow> (Inl e, a, w1)
                     | Inr w2 \<Rightarrow>
                         (case json_dump w2 (token_file_path a) (JObj td) of
                            Inl e \<Rightarrow> (Inl e, a, w2)
                          | Inr w3 \<Rightarrow>
                              (Inr (),
                               a\<lparr>access_token := dict_get td ''access_token'' JNull,
                                 refresh_token := dict_get td ''refresh_token'' JNull,
                                 token_expires_at := dict_get td ''expires_at'' JNull,
                                 api_domain_for_tokens := dict_get td ''api_domain'' JNull\<rparr>,
                               logger INFO ''Tokens saved successfully'' w3)))))
      | _ \<Rightarrow> (Inl AttributeError, a, w))"

text \<open>\<^verbatim>\<open>_save_tokens\<close>: the handler logs and raises the exception again.\<close>

definition save_tokens :: "zoho_auth \<Rightarrow> world \<Rightarrow> json \<Rightarrow> (exn + unit) \<times> zoho_auth \<times> world" where
  "save_tokens a w tokens =
     (case save_tokens_try a w tokens of
        (Inl e, a', w') \<Rightarrow> (Inl e, a', logger ERROR ''Failed to save tokens'' w')
      | (Inr u, a', w') \<Rightarrow> (Inr u, a', w'))"

subsection \<open>Token exchanger\<close>

text \<open>
  \<^verbatim>\<open>token_url\<close> and the two \<^verbatim>\<open>data\<close> dictionaries posted to it. The refresh token is
  posted as it is held, whatever JSON value that is.
\<close>

definition token_url :: "zoho_auth \<Rightarrow> string" where
  "token_url a = accounts_domain a @ ''/oauth/v2/token''"

definition exchange_data :: "zoho_auth \<Rightarrow> string \<Rightarrow> (string \<times> json) list" where
  "exchange_data a auth_code =
     [(''grant_type'', JStr ''authorization_code''),
      (''client_id'', JStr (client_id a)),
      (''client_secret'', JStr (client_secret a)),
      (''redirect_uri'', JStr (redirect_uri a)),
      (''code'', JStr auth_code)]"

definition refresh_data :: "zoho_auth \<Rightarrow> (string \<times> json) list" where
  "refresh_data a =
     [(''grant_type'', JStr ''refresh_token''),
      (''refresh_token'', refresh_token a),
      (''client_id'', JStr (client_id a)),
      (''client_secret'', JStr (client_secret a))]"

text \<open>The \<^verbatim>\<open>try\<close> block of \<^verbatim>\<open>_exchange_code_for_tokens\<close>.\<close>

definition exchange_code_for_tokens_try ::
    "zoho_auth \<Rightarrow> world \<Rightarrow> string \<Rightarrow> (exn + bool) \<times> zoho_auth \<times> world" where
  "exchange_code_for_tokens_try a w auth_code =
     (case post w (token_url a) (exchange_data a auth_code) of
        (Inl e, w1) \<Rightarrow> (Inl e, a, w1)
      | (Inr (status_code, body), w1) \<Rightarrow>
          if status_code = 200 then
            (case body of
               Invalid_json \<Rightarrow> (Inl JSONDecodeError, a, w1)
             | Json_text tokens \<Rightarrow>
                 (case save_tokens a w1 tokens of
                    (Inl e, a', w2) \<Rightarrow> (Inl e, a', w2)
                  | (Inr u, a', w2) \<Rightarrow>
                      (Inr True, a', logger INFO ''Successfully obtained access tokens'' w2)))
          else (Inr False, a, logger ERROR ''Token exchange failed'' w1))"

definition exchange_code_for_tokens ::
    "zoho_auth \<Rightarrow> world \<Rightarrow> string \<Rightarrow> (exn + bool) \<times> zoho_auth \<times> world" where
  "exchange_code_for_tokens a w auth_code =
     (case exchange_code_for_tokens_try a w auth_code of
        (Inl e, a', w') \<Rightarrow> (Inr False, a', logger ERROR ''Failed to exchange code for tokens'' w')
      | (Inr b, a', w') \<Rightarrow> (Inr b, a', w'))"

text \<open>The \<^verbatim>\<open>try\<close> block of \<^verbatim>\<open>refresh_access_token\<close>.\<close>

definition refresh_access_token_try ::
    "zoho_auth \<Rightarrow> world \<Rightarrow> (exn + bool) \<times> zoho_auth \<times> world" where
  "refresh_access_token_try a w =
     (case post w (token_url a) (refresh_data a) of
        (Inl e, w1) \<Rightarrow> (Inl e, a, w1)
      | (Inr (status_code, body), w1) \<Rightarrow>
          if status_code = 200 then
            (case body of
               Invalid_json \<Rightarrow> (Inl JSONDecodeError, a, w1)
             | Json_text tokens \<Rightarrow>
                 (case save_tokens a w1 tokens of
                    (Inl e, a', w2) \<Rightarrow> (Inl e, a', w2)
                  | (Inr u, a', w2) \<Rightarrow>
                      (Inr True, a', logger INFO ''Successfully refreshed access token'' w2)))
          else (Inr False, a, logger ERROR ''Token refresh failed'' w1))"

definition refresh_access_token :: "zoho_auth \<Rightarrow> world \<Rightarrow> (exn + bool) \<times> zoho_auth \<times> world" where
  "refresh_access_token a w =
     (if \<not> truthy (refresh_token a) then
        (Inr False, a, logger ERROR ''No refresh token available'' w)
      else
        (case refresh_access_token_try a w of
           (Inl e, a', w') \<Rightarrow> (Inr False, a', logger ERROR ''Failed to refresh token'' w')
         | (Inr b, a', w') \<Rightarrow> (Inr b, a', w')))"

subsection \<open>Authorization code flow\<close>

text \<open>
  The callback server object carries the two attributes the handler sets. A string taken
  from it is tested for truth (\<^verbatim>\<open>if server.auth_code\<close>): set and not empty.
\<close>

record server =
  auth_code :: "string option"
  auth_error :: "string option"

definition nonempty :: "string option \<Rightarrow> bool" where
  "nonempty x = (case x of None \<Rightarrow> False | Some s \<Rightarrow> s \<noteq> [])"

text \<open>\<^verbatim>\<open>server.timeout = 300\<close>\<close>

definition server_timeout :: real where
  "server_timeout = 300"

text \<open>
  \<^verbatim>\<open>CallbackServer.do_GET\<close>: the new server attributes and the status of the response it
  sends, if it sends one. An exception of the handler (an empty value list) is swallowed by
  \<^verbatim>\<open>socketserver\<close> and changes nothing.
\<close>

definition do_GET :: "http_get \<Rightarrow> server \<Rightarrow> server \<times> int option" where
  "do_GET r sv =
     (if prefix ''/callback'' (target r) then
        (case map_of (query r) ''code'' of
           Some (c # cs) \<Rightarrow> (sv\<lparr>auth_code := Some c\<rparr>, Some 200)
         | Some [] \<Rightarrow> (sv, None)
         | None \<Rightarrow>
             (case map_of (query r) ''error'' of
                Some (e # es) \<Rightarrow> (sv\<lparr>auth_error := Some e\<rparr>, Some 400)
              | Some [] \<Rightarrow> (sv, None)
              | None \<Rightarrow> (sv, None)))
      else (sv, Some 404))"

text \<open>
  \<^verbatim>\<open>server.handle_request()\<close>: waits for the next connection for at most
  \<^verbatim>\<open>server.timeout\<close> seconds from the moment it is called; serves it with \<open>do_GET\<close> if one
  arrives in time (a connection that is already waiting is served at once), returns
  empty-handed when the wait runs out. Every connection carries one complete GET; time
  passes only while the listener waits.
\<close>

definition handle_request :: "server \<Rightarrow> world \<Rightarrow> server \<times> world" where
  "handle_request sv w =
     (case inbox w of
        [] \<Rightarrow> (sv, w\<lparr>now := now w + server_timeout\<rparr>)
      | (arrival, r) # rest \<Rightarrow>
          if arrival \<le> now w + server_timeout then
            (case do_GET r sv of
               (sv', resp) \<Rightarrow>
                 (sv', w\<lparr>now := max (now w) arrival, inbox := rest,
                         trace := trace w @ (case resp of None \<Rightarrow> [] | Some st \<Rightarrow> [Served st])\<rparr>))
          else (sv, w\<lparr>now := now w + server_timeout\<rparr>))"

lemma handle_request_progress:
  assumes "handle_request sv w = (sv', w')"
  shows "length (inbox w') < length (inbox w)
         \<or> (length (inbox w') = length (inbox w) \<and> now w' = now w + 300)"
  using assms
  by (auto simp: handle_request_def server_timeout_def split: list.splits if_splits prod.splits)

text \<open>
  The wait of \<^verbatim>\<open>authorize_interactive\<close>:
  \<^verbatim>\<open>while time.time() - start_time < 300: server.handle_request(); if ...: break\<close>
\<close>

function serve_loop :: "real \<Rightarrow> server \<Rightarrow> world \<Rightarrow> server \<times> world" where
  "serve_loop start_time sv w =
     (if now w - start_time < 300 then
        (case handle_request sv w of
           (sv', w') \<Rightarrow>
             if nonempty (auth_code sv') \<or> nonempty (auth_error sv') then (sv', w')
             else serve_loop start_time sv' w')
      else (sv, w))"
  by pat_completeness auto
termination
proof (relation "measures [\<lambda>(s, sv, w). length (inbox w), \<lambda>(s, sv, w). nat \<lceil>s + 300 - now w\<rceil>]")
  show "wf (measures [\<lambda>(s, sv, w). length (inbox w), \<lambda>(s, sv, w). nat \<lceil>s + 300 - now w\<rceil>])"
    by simp
next
  fix start_time :: real and sv :: server and w :: world and sv' w'
  assume guard: "now w - start_time < 300"
    and step: "(sv', w') = handle_request sv w"
  from step have "handle_request sv w = (sv', w')" by simp
  then have "length (inbox w') < length (inbox w)
      \<or> (length (inbox w') = length (inbox w) \<and> now w' = now w + 300)"
    by (rule handle_request_progress)
  moreover have "nat \<lceil>start_time + 300 - (now w + 300)\<rceil> < nat \<lceil>start_time + 300 - now w\<rceil>"
    using guard by linarith
  ultimately show "((start_time, sv', w'), (start_time, sv, w))
      \<in> measures [\<lambda>(s, sv, w). length (inbox w), \<lambda>(s, sv, w). nat \<lceil>s + 300 - now w\<rceil>]"
    by auto
qed

declare serve_loop.simps [simp del]

text \<open>
  \<^verbatim>\<open>get_authorization_url\<close>: the endpoint and the parameters that \<^verbatim>\<open>urlencode\<close> appends.
\<close>

definition get_authorization_url :: "zoho_auth \<Rightarrow> request" where
  "get_authorization_url a =
     \<lparr>url = accounts_domain a @ ''/oauth/v2/auth'',
      form = [(''scope'', JStr (scope a)),
              (''client_id'', JStr (client_id a)),
              (''response_type'', JStr ''code''),
              (''redirect_uri'', JStr (redirect_uri a)),
              (''access_type'', JStr ''offline''),
              (''prompt'', JStr ''consent'')]\<rparr>"

text \<open>The prints that open \<^verbatim>\<open>authorize_interactive\<close>.\<close>

definition announce :: "zoho_auth \<Rightarrow> world \<Rightarrow> world" where
  "announce a w = w\<lparr>trace := trace w @ [Banner (get_authorization_url a)]\<rparr>"

text \<open>
  The listener is bound (\<^verbatim>\<open>HTTPServer(('localhost', 8080), CallbackServer)\<close>), the
  browser opened and the wait announced.
\<close>

definition open_listener :: "zoho_auth \<Rightarrow> world \<Rightarrow> world" where
  "open_listener a w =
     w\<lparr>trace := trace w @
        [ListenerBound, BrowserOpen (get_authorization_url a),
         Print ''Waiting for authorization (timeout: 5 minutes)...'']\<rparr>"

text \<open>\<^verbatim>\<open>start_time = time.time()\<close> and the loop, on a fresh server object.\<close>

definition wait_for_callback :: "world \<Rightarrow> server \<times> world" where
  "wait_for_callback w = serve_loop (now w) \<lparr>auth_code = None, auth_error = None\<rparr> w"

text \<open>
  The \<^verbatim>\<open>try\<close> block of \<^verbatim>\<open>authorize_interactive\<close>: announce, bind the listener on port
  8080 (an \<^verbatim>\<open>OSError\<close> if it is taken), open the browser, wait, then look at what the
  callback left on the server object.
\<close>

definition authorize_interactive_try ::
    "zoho_auth \<Rightarrow> world \<Rightarrow> (exn + bool) \<times> zoho_auth \<times> world" where
  "authorize_interactive_try a w =
     (let w0 = announce a w in
      if \<not> port_free w0 then (Inl OSError, a, w0)
      else
        (case wait_for_callback (open_listener a w0) of
           (sv, w2) \<Rightarrow>
             if nonempty (auth_error sv) then
               (Inr False, a, logger ERROR ''Authorization failed'' w2)
             else
               (case auth_code sv of
                  None \<Rightarrow> (Inr False, a, logger ERROR ''Authorization timed out'' w2)
                | Some c \<Rightarrow>
                    if c = [] then (Inr False, a, logger ERROR ''Authorization timed out'' w2)
                    else exchange_code_for_tokens a w2 c)))"

definition authorize_interactive :: "zoho_auth \<Rightarrow> world \<Rightarrow> (exn + bool) \<times> zoho_auth \<times> world" where
  "authorize_interactive a w =
     (case authorize_interactive_try a w of
        (Inl e, a', w') \<Rightarrow> (Inr False, a', logger ERROR ''Interactive authorization failed'' w')
      | (Inr b, a', w') \<Rightarrow> (Inr b, a', w'))"

subsection \<open>Credential supervisor\<close>

definition is_token_valid :: "zoho_auth \<Rightarrow> world \<Rightarrow> exn + bool" where
  "is_token_valid a w =
     (if \<not> truthy (access_token a) \<or> \<not> truthy (token_expires_at a) then Inr False
      else case py_sub (token_expires_at a) 300 of
             Inl e \<Rightarrow> Inl e
           | Inr limit \<Rightarrow> Inr (now w < limit))"

text \<open>\<^verbatim>\<open>get_valid_access_token\<close>; the result \<open>Inr JNull\<close> is \<^verbatim>\<open>return None\<close>.\<close>

definition get_valid_access_token :: "zoho_auth \<Rightarrow> world \<Rightarrow> (exn + json) \<times> zoho_auth \<times> world" where
  "get_valid_access_token a w =
     (case is_token_valid a w of
        Inl e \<Rightarrow> (Inl e, a, w)
      | Inr True \<Rightarrow> (Inr (access_token a), a, w)
      | Inr False \<Rightarrow>
          (case refresh_access_token a
                  (logger INFO ''Access token expired or invalid, attempting refresh...'' w) of
             (Inl e, a1, w1) \<Rightarrow> (Inl e, a1, w1)
           | (Inr True, a1, w1) \<Rightarrow> (Inr (access_token a1), a1, w1)
           | (Inr False, a1, w1) \<Rightarrow>
               (case authorize_interactive a1
                       (logger WARNING ''Token refresh failed, interactive authorization required'' w1) of
                  (Inl e, a2, w2) \<Rightarrow> (Inl e, a2, w2)
                | (Inr True, a2, w2) \<Rightarrow> (Inr (access_token a2), a2, w2)
                | (Inr False, a2, w2) \<Rightarrow>
                    (Inr JNull, a2, logger ERROR ''Failed to obtain valid access token'' w2))))"

subsection \<open>Revocation\<close>

text \<open>The \<^verbatim>\<open>try\<close> block of \<^verbatim>\<open>revoke_tokens\<close>.\<close>

definition clear_fields :: "zoho_auth \<Rightarrow> zoho_auth" where
  "clear_fields a =
     a\<lparr>access_token := JNull, refresh_token := JNull, token_expires_at := JNull,
       api_domain_for_tokens := JNull\<rparr>"

definition remove_token_file :: "zoho_auth \<Rightarrow> world \<Rightarrow> (exn + bool) \<times> zoho_auth \<times> world" where
  "remove_token_file a w =
     (if path_exists w (token_file_path a) then
        (case remove w (token_file_path a) of
           Inl e \<Rightarrow> (Inl e, a, w)
         | Inr w' \<Rightarrow> (Inr True, a, logger INFO ''Tokens revoked successfully'' w'))
      else (Inr True, a, logger INFO ''Tokens revoked successfully'' w))"

definition revoke_tokens_try :: "zoho_auth \<Rightarrow> world \<Rightarrow> (exn + bool) \<times> zoho_auth \<times> world" where
  "revoke_tokens_try a w =
     (if truthy (refresh_token a) then
        (case post w (accounts_domain a @ ''/oauth/v2/token/revoke'')
                [(''token'', refresh_token a)] of
           (Inl e, w1) \<Rightarrow> (Inl e, a, w1)
         | (Inr (status_code, body), w1) \<Rightarrow>
             remove_token_file (clear_fields a)
               (if status_code \<noteq> 200 then logger WARNING ''Token revocation warning'' w1 else w1))
      else remove_token_file (clear_fields a) w)"

definition revoke_tokens :: "zoho_auth \<Rightarrow> world \<Rightarrow> (exn + bool) \<times> zoho_auth \<times> world" where
  "revoke_tokens a w =
     (case revoke_tokens_try a w of
        (Inl e, a', w') \<Rightarrow> (Inr False, a', logger ERROR ''Failed to revoke tokens'' w')
      | (Inr b, a', w') \<Rightarrow> (Inr b, a', w'))"

section \<open>Observers used in the statements\<close>

text \<open>A method returns its result, the handler object and the world.\<close>

definition result_of :: "'r \<times> zoho_auth \<times> world \<Rightarrow> 'r" where
  "result_of x = fst x"

definition auth_of :: "'r \<times> zoho_auth \<times> world \<Rightarrow> zoho_auth" where
  "auth_of x = fst (snd x)"

definition world_of :: "'r \<times> zoho_auth \<times> world \<Rightarrow> world" where
  "world_of x = snd (snd x)"

text \<open>A field of the durable record at a path, as a reader of the file finds it.\<close>

definition stored_field :: "world \<Rightarrow> string \<Rightarrow> string \<Rightarrow> json option" where
  "stored_field w p k =
     (case files w p of
        Some (Json_text (JObj td)) \<Rightarrow> map_of td k
      | _ \<Rightarrow> None)"

text \<open>A handler configuration and a quiet world, for the concrete instances below.\<close>

definition example_auth :: zoho_auth where
  "example_auth =
     \<lparr>client_id = ''id'', client_secret = ''secret'',
      redirect_uri = ''http://localhost:8080/callback'', scope = ''ZohoCRM.modules.ALL'',
      token_file_path = ''.zoho_tokens.json'', api_domain = ''https://www.zohoapis.com'',
      accounts_domain = ''https://accounts.zoho.com'',
      access_token = JStr ''T1'', refresh_token = JStr ''R1'', token_expires_at = JNum 1000,
      api_domain_for_tokens = JNull\<rparr>"

definition example_world :: world where
  "example_world =
     \<lparr>now = 990, files = (\<lambda>p. None), fs_fails = (\<lambda>op. False),
      http = (\<lambda>r. NetworkError), port_free = True, inbox = [], trace = [],
      disk_history = []\<rparr>"

text \<open>What a save that goes through leaves in memory and in the world.\<close>

definition saved_auth :: "zoho_auth \<Rightarrow> real \<Rightarrow> (string \<times> json) list \<Rightarrow> zoho_auth" where
  "saved_auth a e kvs =
     a\<lparr>access_token := dict_get kvs ''access_token'' JNull,
       refresh_token := dict_get kvs ''refresh_token'' (refresh_token a),
       token_expires_at := JNum e,
       api_domain_for_tokens :=
         dict_get kvs ''api_domain'' (py_or (api_domain_for_tokens a) (JStr (api_domain a)))\<rparr>"

definition saved_world :: "zoho_auth \<Rightarrow> real \<Rightarrow> (string \<times> json) list \<Rightarrow> world \<Rightarrow> world" where
  "saved_world a e kvs w =
     logger INFO ''Tokens saved successfully''
       (set_files ((files w)(token_file_path a \<mapsto> Json_text (JObj (token_data a e kvs))))
          (set_files ((files w)(token_file_path a \<mapsto> Invalid_json)) w))"

text \<open>Two provider responses: a refresh that reissues no refresh token, and a full grant.\<close>

definition refreshed_response :: "(string \<times> json) list" where
  "refreshed_response = [(''access_token'', JStr ''T2''), (''expires_in'', JNum 3600)]"

definition granted_response :: "(string \<times> json) list" where
  "granted_response =
     [(''access_token'', JStr ''T2''), (''refresh_token'', JStr ''R2''), (''expires_in'', JNum 3600)]"

text \<open>No credential held: the state before the first grant and after a revocation.\<close>

definition unauthenticated :: "zoho_auth \<Rightarrow> bool" where
  "unauthenticated a \<longleftrightarrow>
     access_token a = JNull \<and> refresh_token a = JNull \<and> token_expires_at a = JNull
     \<and> api_domain_for_tokens a = JNull"

text \<open>A world whose token file is not valid JSON.\<close>

definition corrupt_world :: world where
  "corrupt_world =
     example_world\<lparr>files :=
       (\<lambda>p. if p = ''.zoho_tokens.json'' then Some Invalid_json else None)\<rparr>"

text \<open>A world that holds a durable record, and the request that revokes \<open>R1\<close>.\<close>

definition stored_world :: world where
  "stored_world =
     example_world\<lparr>files := (\<lambda>p. if p = ''.zoho_tokens.json''
        then Some (Json_text (JObj [(''access_token'', JStr ''T1''), (''refresh_token'', JStr ''R1''),
                                    (''expires_at'', JNum 1000)]))
        else None)\<rparr>"

definition revoke_request :: request where
  "revoke_request =
     \<lparr>url = ''https://accounts.zoho.com/oauth/v2/token/revoke'', form = [(''token'', JStr ''R1'')]\<rparr>"

text \<open>Requests reaching the listener: a stray one, and a redirect that carries a code.\<close>

definition favicon :: http_get where
  "favicon = \<lparr>target = ''/favicon.ico'', query = []\<rparr>"

definition late_callback :: http_get where
  "late_callback = \<lparr>target = ''/callback?code=ABC'', query = [(''code'', [''ABC''])]\<rparr>"

definition stray_world :: world where
  "stray_world = example_world\<lparr>now := 0, inbox := [(299, favicon)]\<rparr>"

definition late_world :: world where
  "late_world =
     example_world\<lparr>now := 0, inbox := [(299, favicon), (400, late_callback)],
       http := (\<lambda>r. Response 200 (Json_text (JObj granted_response)))\<rparr>"




fun interactive :: "event \<Rightarrow> bool" where
  "interactive (Log l m) = False"
| "interactive (HttpPost r) = False"
| "interactive ev = True"


fun is_served :: "event \<Rightarrow> bool" where
  "is_served (Served st) = True"
| "is_served ev = False"

fun is_post :: "event \<Rightarrow> bool" where
  "is_post (HttpPost r) = True"
| "is_post ev = False"

text \<open>
  A token exchange fails, in the spec's words: the POST raises, or the status is not 2xx.
\<close>

definition exchange_fails :: "world \<Rightarrow> request \<Rightarrow> bool" where
  "exchange_fails w r =
     (case http w r of
        NetworkError \<Rightarrow> True
      | Response status_code body \<Rightarrow> status_code < 200 \<or> 300 \<le> status_code)"

text \<open>A redirect that reports the owner's refusal, and a world in which it arrives.\<close>

definition denied_callback :: http_get where
  "denied_callback =
     \<lparr>target = ''/callback?error=access_denied'', query = [(''error'', [''access_denied''])]\<rparr>"

definition denied_world :: world where
  "denied_world =
     stored_world\<lparr>inbox := [(1000, denied_callback)],
       http := (\<lambda>r. Response 401 Invalid_json)\<rparr>"



section \<open>Properties\<close>

subsection \<open>Frame lemmas\<close>

lemma fs_fails_set_files [simp]: "fs_fails (set_files fs w) = fs_fails w"
  and now_set_files [simp]: "now (set_files fs w) = now w"
  and files_set_files [simp]: "files (set_files fs w) = fs"
  and trace_set_files [simp]: "trace (set_files fs w) = trace w"
  and history_set_files [simp]: "disk_history (set_files fs w) = disk_history w @ [fs]"
  by (simp_all add: set_files_def)

lemma files_logger [simp]: "files (logger l m w) = files w"
  and now_logger [simp]: "now (logger l m w) = now w"
  and history_logger [simp]: "disk_history (logger l m w) = disk_history w"
  and trace_logger [simp]: "trace (logger l m w) = trace w @ [Log l m]"
  and fs_fails_logger [simp]: "fs_fails (logger l m w) = fs_fails w"
  by (simp_all add: logger_def)

lemma dict_get_token_data [simp]:
  "dict_get (token_data a e kvs) ''access_token'' d = dict_get kvs ''access_token'' JNull"
  "dict_get (token_data a e kvs) ''refresh_token'' d = dict_get kvs ''refresh_token'' (refresh_token a)"
  "dict_get (token_data a e kvs) ''expires_at'' d = JNum e"
  "dict_get (token_data a e kvs) ''api_domain'' d =
     dict_get kvs ''api_domain'' (py_or (api_domain_for_tokens a) (JStr (api_domain a)))"
  by (simp_all add: token_data_def dict_get_def)

subsection \<open>Saving\<close>

lemma save_tokens_ok:
  assumes "py_add (now w) (dict_get kvs ''expires_in'' (JNum 3600)) = Inr e"
    and "\<not> fs_fails w MakeDirs" and "\<not> fs_fails w OpenWrite" and "\<not> fs_fails w Dump"
  shows "save_tokens a w (JObj kvs) = (Inr (), saved_auth a e kvs, saved_world a e kvs w)"
  using assms
  by (simp add: save_tokens_def save_tokens_try_def makedirs_def open_w_def json_dump_def
      Let_def saved_auth_def saved_world_def)

lemma save_tokens_success:
  assumes "result_of (save_tokens a w tokens) = Inr ()"
  shows "\<exists>kvs e. tokens = JObj kvs
     \<and> py_add (now w) (dict_get kvs ''expires_in'' (JNum 3600)) = Inr e
     \<and> \<not> fs_fails w MakeDirs \<and> \<not> fs_fails w OpenWrite \<and> \<not> fs_fails w Dump"
  using assms
  by (auto simp: save_tokens_def save_tokens_try_def result_of_def makedirs_def open_w_def
      json_dump_def Let_def split: json.splits sum.splits if_splits)

lemma example_save_refreshed:
  "save_tokens example_auth example_world (JObj refreshed_response)
     = (Inr (), saved_auth example_auth 4590 refreshed_response,
        saved_world example_auth 4590 refreshed_response example_world)"
  by (rule save_tokens_ok)
     (simp_all add: example_world_def refreshed_response_def py_add_def dict_get_def)

lemma example_save_granted:
  "save_tokens example_auth example_world (JObj granted_response)
     = (Inr (), saved_auth example_auth 4590 granted_response,
        saved_world example_auth 4590 granted_response example_world)"
  by (rule save_tokens_ok)
     (simp_all add: example_world_def granted_response_def py_add_def dict_get_def)

text \<open>
  C3: when a save goes through and the provider's response has no \<^verbatim>\<open>refresh_token\<close>
  field, the refresh token held before the save is the one held after it, in memory and in
  the durable record; a response that carries the field replaces both with its value.
\<close>

theorem save_tokens_keeps_refresh_token:
  assumes "result_of (save_tokens a w (JObj kvs)) = Inr ()"
  shows "(map_of kvs ''refresh_token'' = None \<longrightarrow>
            refresh_token (auth_of (save_tokens a w (JObj kvs))) = refresh_token a
          \<and> stored_field (world_of (save_tokens a w (JObj kvs))) (token_file_path a)
                ''refresh_token'' = Some (refresh_token a))
       \<and> (\<forall>r. map_of kvs ''refresh_token'' = Some r \<longrightarrow>
            refresh_token (auth_of (save_tokens a w (JObj kvs))) = r
          \<and> stored_field (world_of (save_tokens a w (JObj kvs))) (token_file_path a)
                ''refresh_token'' = Some r)"
proof -
  from save_tokens_success [OF assms] obtain e
    where e: "py_add (now w) (dict_get kvs ''expires_in'' (JNum 3600)) = Inr e"
      and ok: "\<not> fs_fails w MakeDirs" "\<not> fs_fails w OpenWrite" "\<not> fs_fails w Dump"
    by auto
  have eq: "save_tokens a w (JObj kvs) = (Inr (), saved_auth a e kvs, saved_world a e kvs w)"
    using e ok by (rule save_tokens_ok)
  have mem: "refresh_token (auth_of (save_tokens a w (JObj kvs)))
      = dict_get kvs ''refresh_token'' (refresh_token a)"
    by (simp add: eq auth_of_def saved_auth_def)
  have disk: "stored_field (world_of (save_tokens a w (JObj kvs))) (token_file_path a)
      ''refresh_token'' = Some (dict_get kvs ''refresh_token'' (refresh_token a))"
    by (simp add: eq world_of_def saved_world_def stored_field_def token_data_def)
  show ?thesis
    by (simp add: mem disk dict_get_def)
qed

theorem save_tokens_keeps_refresh_token_witness:
  "result_of (save_tokens example_auth example_world (JObj refreshed_response)) = Inr ()
   \<and> map_of refreshed_response ''refresh_token'' = None
   \<and> refresh_token (auth_of (save_tokens example_auth example_world (JObj refreshed_response)))
       = JStr ''R1''
   \<and> stored_field (world_of (save_tokens example_auth example_world (JObj refreshed_response)))
       ''.zoho_tokens.json'' ''refresh_token'' = Some (JStr ''R1'')
   \<and> result_of (save_tokens example_auth example_world (JObj granted_response)) = Inr ()
   \<and> map_of granted_response ''refresh_token'' = Some (JStr ''R2'')
   \<and> refresh_token (auth_of (save_tokens example_auth example_world (JObj granted_response)))
       = JStr ''R2''
   \<and> stored_field (world_of (save_tokens example_auth example_world (JObj granted_response)))
       ''.zoho_tokens.json'' ''refresh_token'' = Some (JStr ''R2'')"
proof -
  have h1: "result_of (save_tokens example_auth example_world (JObj refreshed_response)) = Inr ()"
    by (simp add: example_save_refreshed result_of_def)
  have h2: "result_of (save_tokens example_auth example_world (JObj granted_response)) = Inr ()"
    by (simp add: example_save_granted result_of_def)
  have m1: "map_of refreshed_response ''refresh_token'' = None"
    by (simp add: refreshed_response_def)
  have m2: "map_of granted_response ''refresh_token'' = Some (JStr ''R2'')"
    by (simp add: granted_response_def)
  have p: "token_file_path example_auth = ''.zoho_tokens.json''"
    and r: "refresh_token example_auth = JStr ''R1''"
    by (simp_all add: example_auth_def)
  from save_tokens_keeps_refresh_token [OF h1] save_tokens_keeps_refresh_token [OF h2]
  show ?thesis
    using h1 h2 m1 m2 p r by simp
qed



text \<open>
  C10: a response without an \<^verbatim>\<open>expires_in\<close> field is saved all the same (no file
  operation failing): the save returns normally and the expiry, in memory and in the
  durable record, is the clock reading of the save plus 3600 seconds.
\<close>

theorem save_tokens_default_lifetime:
  assumes "map_of kvs ''expires_in'' = None"
    and "\<not> fs_fails w MakeDirs" and "\<not> fs_fails w OpenWrite" and "\<not> fs_fails w Dump"
  shows "result_of (save_tokens a w (JObj kvs)) = Inr ()
       \<and> token_expires_at (auth_of (save_tokens a w (JObj kvs))) = JNum (now w + 3600)
       \<and> stored_field (world_of (save_tokens a w (JObj kvs))) (token_file_path a)
            ''expires_at'' = Some (JNum (now w + 3600))"
proof -
  have e: "py_add (now w) (dict_get kvs ''expires_in'' (JNum 3600)) = Inr (now w + 3600)"
    using assms(1) by (simp add: py_add_def dict_get_def)
  have eq: "save_tokens a w (JObj kvs)
      = (Inr (), saved_auth a (now w + 3600) kvs, saved_world a (now w + 3600) kvs w)"
    using e assms(2-4) by (rule save_tokens_ok)
  show ?thesis
    by (simp add: eq result_of_def auth_of_def world_of_def saved_auth_def saved_world_def
        stored_field_def token_data_def)
qed

theorem save_tokens_default_lifetime_witness:
  "map_of [(''access_token'', JStr ''T3'')] ''expires_in'' = None
   \<and> \<not> fs_fails example_world MakeDirs \<and> \<not> fs_fails example_world OpenWrite
   \<and> \<not> fs_fails example_world Dump
   \<and> result_of (save_tokens example_auth example_world (JObj [(''access_token'', JStr ''T3'')]))
       = Inr ()
   \<and> token_expires_at
       (auth_of (save_tokens example_auth example_world (JObj [(''access_token'', JStr ''T3'')])))
       = JNum 4590
   \<and> stored_field
       (world_of (save_tokens example_auth example_world (JObj [(''access_token'', JStr ''T3'')])))
       ''.zoho_tokens.json'' ''expires_at'' = Some (JNum 4590)"
proof -
  have m: "map_of [(''access_token'', JStr ''T3'')] ''expires_in'' = None"
    by simp
  have f: "\<not> fs_fails example_world MakeDirs" "\<not> fs_fails example_world OpenWrite"
    "\<not> fs_fails example_world Dump"
    by (simp_all add: example_world_def)
  have p: "token_file_path example_auth = ''.zoho_tokens.json''"
    by (simp add: example_auth_def)
  have t: "now example_world = 990"
    by (simp add: example_world_def)
  from save_tokens_default_lifetime [OF m f, of example_auth] show ?thesis
    using m f p t by simp
qed

subsection \<open>Loading\<close>

lemma load_tokens_returns: "result_of (load_tokens a w) = Inr ()"
  by (simp add: load_tokens_def result_of_def split: prod.splits sum.splits)

lemma load_tokens_missing:
  assumes "files w (token_file_path a) = None"
  shows "load_tokens a w = (Inr (), a, w)"
  using assms by (simp add: load_tokens_def path_exists_def)

lemma load_tokens_malformed:
  assumes "files w (token_file_path a) = Some Invalid_json"
  shows "load_tokens a w = (Inr (), a, logger ERROR ''Failed to load tokens'' w)"
  using assms by (simp add: load_tokens_def path_exists_def load_tokens_try_def read_json_def)

text \<open>
  C6: whatever the file system holds, constructing the handler returns normally. With no
  file at the token path the handler holds no token and nothing is logged; with a file that
  is not valid JSON it holds no token either and the failure is logged as an error.
\<close>

theorem init_never_raises:
  "result_of (init cid secret redirect sc path api accounts w) = Inr ()
   \<and> (files w path = None \<longrightarrow>
        unauthenticated (auth_of (init cid secret redirect sc path api accounts w))
        \<and> world_of (init cid secret redirect sc path api accounts w) = w)
   \<and> (files w path = Some Invalid_json \<longrightarrow>
        unauthenticated (auth_of (init cid secret redirect sc path api accounts w))
        \<and> world_of (init cid secret redirect sc path api accounts w)
            = logger ERROR ''Failed to load tokens'' w)"
proof (intro conjI impI)
  show "result_of (init cid secret redirect sc path api accounts w) = Inr ()"
    by (simp add: init_def load_tokens_returns)
next
  assume "files w path = None"
  then show "unauthenticated (auth_of (init cid secret redirect sc path api accounts w))"
    and "world_of (init cid secret redirect sc path api accounts w) = w"
    by (simp_all add: init_def load_tokens_missing auth_of_def world_of_def unauthenticated_def)
next
  assume "files w path = Some Invalid_json"
  then show "unauthenticated (auth_of (init cid secret redirect sc path api accounts w))"
    and "world_of (init cid secret redirect sc path api accounts w)
          = logger ERROR ''Failed to load tokens'' w"
    by (simp_all add: init_def load_tokens_malformed auth_of_def world_of_def unauthenticated_def)
qed

theorem init_never_raises_witness:
  "files example_world ''.zoho_tokens.json'' = None
   \<and> files corrupt_world ''.zoho_tokens.json'' = Some Invalid_json
   \<and> result_of (init ''id'' ''secret'' ''uri'' ''scope'' ''.zoho_tokens.json'' ''api'' ''accounts''
        example_world) = Inr ()
   \<and> unauthenticated (auth_of (init ''id'' ''secret'' ''uri'' ''scope'' ''.zoho_tokens.json'' ''api''
        ''accounts'' example_world))
   \<and> trace (world_of (init ''id'' ''secret'' ''uri'' ''scope'' ''.zoho_tokens.json'' ''api''
        ''accounts'' example_world)) = []
   \<and> result_of (init ''id'' ''secret'' ''uri'' ''scope'' ''.zoho_tokens.json'' ''api'' ''accounts''
        corrupt_world) = Inr ()
   \<and> unauthenticated (auth_of (init ''id'' ''secret'' ''uri'' ''scope'' ''.zoho_tokens.json'' ''api''
        ''accounts'' corrupt_world))
   \<and> trace (world_of (init ''id'' ''secret'' ''uri'' ''scope'' ''.zoho_tokens.json'' ''api''
        ''accounts'' corrupt_world)) = [Log ERROR ''Failed to load tokens'']"
proof -
  have f1: "files example_world ''.zoho_tokens.json'' = None"
    by (simp add: example_world_def)
  have f2: "files corrupt_world ''.zoho_tokens.json'' = Some Invalid_json"
    by (simp add: corrupt_world_def)
  have t1: "trace example_world = []"
    by (simp add: example_world_def)
  have t2: "trace corrupt_world = []"
    by (simp add: corrupt_world_def example_world_def)
  from init_never_raises [of "''id''" "''secret''" "''uri''" "''scope''" "''.zoho_tokens.json''"
      "''api''" "''accounts''" example_world]
    init_never_raises [of "''id''" "''secret''" "''uri''" "''scope''" "''.zoho_tokens.json''"
      "''api''" "''accounts''" corrupt_world]
  show ?thesis
    using f1 f2 t1 t2 by simp
qed

subsection \<open>A valid token\<close>

text \<open>
  C2: with an access token and an expiry held (set and truthy, the expiry a number) and the
  clock before the expiry minus 300 seconds, \<^verbatim>\<open>get_valid_access_token\<close> returns the held
  token and leaves the handler and the world as they were: nothing is posted, no listener
  is bound, no file is touched, nothing is logged.
\<close>

theorem valid_token_needs_no_network:
  assumes "truthy (access_token a)" and "truthy (token_expires_at a)"
    and "as_number (token_expires_at a) = Inr e" and "now w < e - 300"
  shows "get_valid_access_token a w = (Inr (access_token a), a, w)"
  using assms by (simp add: get_valid_access_token_def is_token_valid_def py_sub_def)

theorem valid_token_needs_no_network_witness:
  "truthy (access_token example_auth) \<and> truthy (token_expires_at example_auth)
   \<and> as_number (token_expires_at example_auth) = Inr 1000
   \<and> now (example_world\<lparr>now := 100\<rparr>) < 1000 - 300
   \<and> get_valid_access_token example_auth (example_world\<lparr>now := 100\<rparr>)
       = (Inr (JStr ''T1''), example_auth, example_world\<lparr>now := 100\<rparr>)"
proof -
  have h: "truthy (access_token example_auth)" "truthy (token_expires_at example_auth)"
    "as_number (token_expires_at example_auth) = Inr 1000"
    "now (example_world\<lparr>now := 100\<rparr>) < 1000 - 300"
    by (simp_all add: example_auth_def)
  have t: "access_token example_auth = JStr ''T1''"
    by (simp add: example_auth_def)
  from valid_token_needs_no_network [OF h] show ?thesis
    using h t by simp
qed

subsection \<open>Revocation\<close>

lemma clear_fields_config [simp]:
  "token_file_path (clear_fields a) = token_file_path a"
  "accounts_domain (clear_fields a) = accounts_domain a"
  by (simp_all add: clear_fields_def)

lemma revoke_tokens_after_response:
  assumes "truthy (refresh_token a)"
    and "http w \<lparr>url = accounts_domain a @ ''/oauth/v2/token/revoke'',
                 form = [(''token'', refresh_token a)]\<rparr> = Response st body"
    and "\<not> fs_fails w Remove"
  shows "result_of (revoke_tokens a w) = Inr True
       \<and> auth_of (revoke_tokens a w) = clear_fields a
       \<and> files (world_of (revoke_tokens a w)) (token_file_path a) = None"
  using assms
  by (simp add: revoke_tokens_def revoke_tokens_try_def post_def remove_token_file_def
      remove_def path_exists_def result_of_def auth_of_def world_of_def Let_def)

lemma revoke_tokens_without_refresh_token:
  assumes "\<not> truthy (refresh_token a)" and "\<not> fs_fails w Remove"
  shows "result_of (revoke_tokens a w) = Inr True
       \<and> auth_of (revoke_tokens a w) = clear_fields a
       \<and> files (world_of (revoke_tokens a w)) (token_file_path a) = None"
  using assms
  by (simp add: revoke_tokens_def revoke_tokens_try_def remove_token_file_def
      remove_def path_exists_def result_of_def auth_of_def world_of_def)

text \<open>
  C7: the revoke call failing at the network level. The handler holds the refresh token
  \<open>R1\<close>, the token file exists and the POST to the revoke endpoint raises. The method
  returns \<open>False\<close> with the four fields as they were and the file still in place.
\<close>

theorem revoke_tokens_network_failure:
  "http stored_world revoke_request = NetworkError
   \<and> result_of (revoke_tokens example_auth stored_world) = Inr False
   \<and> auth_of (revoke_tokens example_auth stored_world) = example_auth
   \<and> refresh_token (auth_of (revoke_tokens example_auth stored_world)) = JStr ''R1''
   \<and> files (world_of (revoke_tokens example_auth stored_world)) = files stored_world
   \<and> files (world_of (revoke_tokens example_auth stored_world)) ''.zoho_tokens.json'' \<noteq> None
   \<and> trace (world_of (revoke_tokens example_auth stored_world))
       = [HttpPost revoke_request, Log ERROR ''Failed to revoke tokens'']"
  by (simp add: revoke_tokens_def revoke_tokens_try_def post_def stored_world_def
      example_world_def example_auth_def revoke_request_def result_of_def auth_of_def
      world_of_def Let_def logger_def)

subsection \<open>The callback listener\<close>

text \<open>
  The wait never goes back in time, and what bounds it is twice the advertised timeout: a
  call of \<^verbatim>\<open>handle_request\<close> that starts just before 300 s may itself last 300 s.
\<close>

lemma handle_request_clock:
  assumes "handle_request sv w = (sv', w')"
  shows "now w \<le> now w' \<and> now w' \<le> now w + 300"
  using assms
  by (auto simp: handle_request_def server_timeout_def split: list.splits if_splits prod.splits)

lemma serve_loop_clock:
  "start_time \<le> now w \<Longrightarrow>
     now w \<le> now (snd (serve_loop start_time sv w))
     \<and> now (snd (serve_loop start_time sv w)) \<le> max (now w) (start_time + 600)"
proof (induction start_time sv w rule: serve_loop.induct)
  case (1 start_time sv w)
  show ?case
  proof (cases "now w - start_time < 300")
    case False
    then show ?thesis by (simp add: serve_loop.simps [of start_time sv w])
  next
    case True
    obtain sv' w' where step: "handle_request sv w = (sv', w')"
      by (cases "handle_request sv w")
    from handle_request_clock [OF step]
    have clock: "now w \<le> now w'" "now w' \<le> now w + 300" by simp_all
    show ?thesis
    proof (cases "nonempty (auth_code sv') \<or> nonempty (auth_error sv')")
      case True
      with \<open>now w - start_time < 300\<close> step clock show ?thesis
        by (simp add: serve_loop.simps [of start_time sv w])
    next
      case False
      from clock "1.prems" have "start_time \<le> now w'" by simp
      from "1.IH" [OF True step [symmetric] False this]
      have "now w' \<le> now (snd (serve_loop start_time sv' w'))
          \<and> now (snd (serve_loop start_time sv' w')) \<le> max (now w') (start_time + 600)"
        by simp
      with \<open>now w - start_time < 300\<close> False step clock show ?thesis
        by (simp add: serve_loop.simps [of start_time sv w])
    qed
  qed
qed

text \<open>
  C8: two runs of the interactive flow started at time 0. In the first a request for
  \<^verbatim>\<open>/favicon.ico\<close> reaches the listener at 299 s and nothing follows: the flow gives up
  at 599 s, not at 300 s. In the second the redirect with the code arrives at 400 s, after
  the window: it is served, the code is exchanged and the flow succeeds.
\<close>

theorem authorize_interactive_overruns_deadline:
  "now stray_world = 0
   \<and> result_of (authorize_interactive example_auth stray_world) = Inr False
   \<and> now (world_of (authorize_interactive example_auth stray_world)) = 599
   \<and> last (trace (world_of (authorize_interactive example_auth stray_world)))
       = Log ERROR ''Authorization timed out''
   \<and> now late_world = 0
   \<and> result_of (authorize_interactive example_auth late_world) = Inr True
   \<and> now (world_of (authorize_interactive example_auth late_world)) = 400
   \<and> access_token (auth_of (authorize_interactive example_auth late_world)) = JStr ''T2''"
proof -
  have stray: "result_of (authorize_interactive example_auth stray_world) = Inr False
      \<and> now (world_of (authorize_interactive example_auth stray_world)) = 599
      \<and> last (trace (world_of (authorize_interactive example_auth stray_world)))
          = Log ERROR ''Authorization timed out''"
    by (simp add: authorize_interactive_def authorize_interactive_try_def announce_def
        open_listener_def wait_for_callback_def stray_world_def example_world_def
        serve_loop.simps handle_request_def do_GET_def favicon_def server_timeout_def
        nonempty_def logger_def result_of_def world_of_def)
  have late: "result_of (authorize_interactive example_auth late_world) = Inr True
      \<and> now (world_of (authorize_interactive example_auth late_world)) = 400
      \<and> access_token (auth_of (authorize_interactive example_auth late_world)) = JStr ''T2''"
    by (simp add: authorize_interactive_def authorize_interactive_try_def announce_def
        open_listener_def wait_for_callback_def late_world_def example_world_def
        serve_loop.simps handle_request_def do_GET_def favicon_def late_callback_def
        server_timeout_def nonempty_def
        exchange_code_for_tokens_def exchange_code_for_tokens_try_def post_def Let_def
        save_tokens_def save_tokens_try_def makedirs_def open_w_def json_dump_def
        py_add_def dict_get_def granted_response_def token_data_def
        result_of_def auth_of_def world_of_def set_files_def logger_def)
  show ?thesis
    using stray late by (simp add: stray_world_def late_world_def)
qed

subsection \<open>How the record reaches the disk\<close>





subsection \<open>What each method adds to the trace\<close>














subsection \<open>The interactive flow: frame and trace\<close>

lemma served_not_post:
  "list_all is_served evs \<Longrightarrow> list_all (\<lambda>ev. \<not> is_post ev) evs"
  by (induction evs) (auto elim: is_served.elims)


lemma handle_request_frame:
  assumes "handle_request sv w = (sv', w')"
  shows "files w' = files w \<and> disk_history w' = disk_history w \<and> http w' = http w
       \<and> fs_fails w' = fs_fails w
       \<and> (\<exists>evs. trace w' = trace w @ evs \<and> list_all is_served evs)"
  using assms
  by (auto simp: handle_request_def split: list.splits if_splits prod.splits option.splits)

lemma serve_loop_frame:
  "files (snd (serve_loop start_time sv w)) = files w
   \<and> disk_history (snd (serve_loop start_time sv w)) = disk_history w
   \<and> http (snd (serve_loop start_time sv w)) = http w
   \<and> fs_fails (snd (serve_loop start_time sv w)) = fs_fails w
   \<and> (\<exists>evs. trace (snd (serve_loop start_time sv w)) = trace w @ evs \<and> list_all is_served evs)"
proof (induction start_time sv w rule: serve_loop.induct)
  case (1 start_time sv w)
  show ?case
  proof (cases "now w - start_time < 300")
    case False
    then show ?thesis by (simp add: serve_loop.simps [of start_time sv w])
  next
    case True
    obtain sv' w' where step: "handle_request sv w = (sv', w')"
      by (cases "handle_request sv w")
    from handle_request_frame [OF step] obtain evs
      where frame: "files w' = files w" "disk_history w' = disk_history w" "http w' = http w"
        "fs_fails w' = fs_fails w"
        and evs: "trace w' = trace w @ evs" "list_all is_served evs"
      by blast
    show ?thesis
    proof (cases "nonempty (auth_code sv') \<or> nonempty (auth_error sv')")
      case True
      with \<open>now w - start_time < 300\<close> step frame evs show ?thesis
        by (simp add: serve_loop.simps [of start_time sv w])
    next
      case False
      from "1.IH" [OF True step [symmetric] False] obtain evs'
        where frame': "files (snd (serve_loop start_time sv' w')) = files w'"
          "disk_history (snd (serve_loop start_time sv' w')) = disk_history w'"
          "http (snd (serve_loop start_time sv' w')) = http w'"
          "fs_fails (snd (serve_loop start_time sv' w')) = fs_fails w'"
          and evs': "trace (snd (serve_loop start_time sv' w')) = trace w' @ evs'"
          "list_all is_served evs'"
        by blast
      have "serve_loop start_time sv w = serve_loop start_time sv' w'"
        using \<open>now w - start_time < 300\<close> False step
        by (simp add: serve_loop.simps [of start_time sv w])
      moreover have "list_all is_served (evs @ evs')"
        using evs evs' by simp
      ultimately show ?thesis
        using frame frame' evs evs' by auto
    qed
  qed
qed

lemma wait_for_callback_frame:
  "files (snd (wait_for_callback w)) = files w
   \<and> disk_history (snd (wait_for_callback w)) = disk_history w
   \<and> http (snd (wait_for_callback w)) = http w
   \<and> fs_fails (snd (wait_for_callback w)) = fs_fails w
   \<and> (\<exists>evs. trace (snd (wait_for_callback w)) = trace w @ evs \<and> list_all is_served evs)"
  unfolding wait_for_callback_def by (rule serve_loop_frame)


lemma port_free_announce [simp]: "port_free (announce a w) = port_free w"
  and files_announce [simp]: "files (announce a w) = files w"
  and history_announce [simp]: "disk_history (announce a w) = disk_history w"
  and http_announce [simp]: "http (announce a w) = http w"
  and trace_announce [simp]: "trace (announce a w) = trace w @ [Banner (get_authorization_url a)]"
  by (simp_all add: announce_def)

lemma files_open_listener [simp]: "files (open_listener a w) = files w"
  and history_open_listener [simp]: "disk_history (open_listener a w) = disk_history w"
  and http_open_listener [simp]: "http (open_listener a w) = http w"
  and trace_open_listener [simp]: "trace (open_listener a w) = trace w @
        [ListenerBound, BrowserOpen (get_authorization_url a),
         Print ''Waiting for authorization (timeout: 5 minutes)...'']"
  by (simp_all add: open_listener_def)


lemma authorize_interactive_error:
  assumes "port_free w"
    and "nonempty (auth_error (fst (wait_for_callback (open_listener a (announce a w)))))"
  shows "result_of (authorize_interactive a w) = Inr False
       \<and> auth_of (authorize_interactive a w) = a
       \<and> files (world_of (authorize_interactive a w)) = files w
       \<and> disk_history (world_of (authorize_interactive a w)) = disk_history w
       \<and> (\<exists>evs. trace (world_of (authorize_interactive a w)) = trace w @ evs
              \<and> list_all (\<lambda>ev. \<not> is_post ev) evs)"
proof -
  obtain sv w2 where wait: "wait_for_callback (open_listener a (announce a w)) = (sv, w2)"
    by (cases "wait_for_callback (open_listener a (announce a w))")
  from wait_for_callback_frame [of "open_listener a (announce a w)"] wait obtain served
    where f2: "files w2 = files w" "disk_history w2 = disk_history w"
      and t2: "trace w2 = trace w @ [Banner (get_authorization_url a), ListenerBound,
          BrowserOpen (get_authorization_url a),
          Print ''Waiting for authorization (timeout: 5 minutes)...''] @ served"
      and served: "list_all (\<lambda>ev. \<not> is_post ev) served"
    by (auto dest: served_not_post)
  from assms(2) wait have "nonempty (auth_error sv)" by simp
  with assms(1) wait f2 t2 served show ?thesis
    by (simp add: authorize_interactive_def authorize_interactive_try_def Let_def
        result_of_def auth_of_def world_of_def)
qed


subsection \<open>Failed exchanges\<close>

lemma exchange_fails_cases:
  assumes "exchange_fails w r"
  shows "http w r = NetworkError \<or> (\<exists>st body. http w r = Response st body \<and> st \<noteq> 200)"
  using assms by (auto simp: exchange_fails_def split: http_outcome.splits)

lemma refresh_access_token_rejected:
  assumes "exchange_fails w \<lparr>url = token_url a, form = refresh_data a\<rparr>"
  shows "refresh_access_token a w = (Inr False, a, world_of (refresh_access_token a w))
       \<and> files (world_of (refresh_access_token a w)) = files w
       \<and> disk_history (world_of (refresh_access_token a w)) = disk_history w"
  using exchange_fails_cases [OF assms]
  by (auto simp: refresh_access_token_def refresh_access_token_try_def post_def Let_def
      world_of_def)

lemma exchange_code_for_tokens_rejected:
  assumes "exchange_fails w \<lparr>url = token_url a, form = exchange_data a c\<rparr>"
  shows "exchange_code_for_tokens a w c
           = (Inr False, a, world_of (exchange_code_for_tokens a w c))
       \<and> files (world_of (exchange_code_for_tokens a w c)) = files w
       \<and> disk_history (world_of (exchange_code_for_tokens a w c)) = disk_history w"
  using exchange_fails_cases [OF assms]
  by (auto simp: exchange_code_for_tokens_def exchange_code_for_tokens_try_def post_def Let_def
      world_of_def)

text \<open>
  C5: a token exchange that fails (the POST raises, or the provider answers outside 2xx; in
  fact any status but 200) returns \<open>False\<close> and leaves the four fields and the file system
  as they were, for the refresh grant and for the authorization-code grant; and an
  interactive flow whose wait ends with an error on the server object returns \<open>False\<close>
  with the handler and the file system untouched.
\<close>

theorem failed_exchange_keeps_credentials:
  "(exchange_fails w \<lparr>url = token_url a, form = refresh_data a\<rparr> \<longrightarrow>
      result_of (refresh_access_token a w) = Inr False
      \<and> auth_of (refresh_access_token a w) = a
      \<and> files (world_of (refresh_access_token a w)) = files w
      \<and> disk_history (world_of (refresh_access_token a w)) = disk_history w)
   \<and> (exchange_fails w \<lparr>url = token_url a, form = exchange_data a c\<rparr> \<longrightarrow>
      result_of (exchange_code_for_tokens a w c) = Inr False
      \<and> auth_of (exchange_code_for_tokens a w c) = a
      \<and> files (world_of (exchange_code_for_tokens a w c)) = files w
      \<and> disk_history (world_of (exchange_code_for_tokens a w c)) = disk_history w)
   \<and> (port_free w
       \<and> nonempty (auth_error (fst (wait_for_callback (open_listener a (announce a w))))) \<longrightarrow>
      result_of (authorize_interactive a w) = Inr False
      \<and> auth_of (authorize_interactive a w) = a
      \<and> files (world_of (authorize_interactive a w)) = files w
      \<and> disk_history (world_of (authorize_interactive a w)) = disk_history w)"
proof (intro conjI impI)
  assume h: "exchange_fails w \<lparr>url = token_url a, form = refresh_data a\<rparr>"
  from refresh_access_token_rejected [OF h]
  have eq: "refresh_access_token a w = (Inr False, a, world_of (refresh_access_token a w))"
    and fr: "files (world_of (refresh_access_token a w)) = files w"
      "disk_history (world_of (refresh_access_token a w)) = disk_history w"
    by simp_all
  from eq show "result_of (refresh_access_token a w) = Inr False"
    by (metis fst_conv result_of_def)
  from eq show "auth_of (refresh_access_token a w) = a"
    by (metis fst_conv snd_conv auth_of_def)
  from fr show "files (world_of (refresh_access_token a w)) = files w"
    and "disk_history (world_of (refresh_access_token a w)) = disk_history w"
    by simp_all
next
  assume h: "exchange_fails w \<lparr>url = token_url a, form = exchange_data a c\<rparr>"
  from exchange_code_for_tokens_rejected [OF h]
  have eq: "exchange_code_for_tokens a w c
      = (Inr False, a, world_of (exchange_code_for_tokens a w c))"
    and fr: "files (world_of (exchange_code_for_tokens a w c)) = files w"
      "disk_history (world_of (exchange_code_for_tokens a w c)) = disk_history w"
    by simp_all
  from eq show "result_of (exchange_code_for_tokens a w c) = Inr False"
    by (metis fst_conv result_of_def)
  from eq show "auth_of (exchange_code_for_tokens a w c) = a"
    by (metis fst_conv snd_conv auth_of_def)
  from fr show "files (world_of (exchange_code_for_tokens a w c)) = files w"
    and "disk_history (world_of (exchange_code_for_tokens a w c)) = disk_history w"
    by simp_all
next
  assume h: "port_free w
    \<and> nonempty (auth_error (fst (wait_for_callback (open_listener a (announce a w)))))"
  then have e: "result_of (authorize_interactive a w) = Inr False
       \<and> auth_of (authorize_interactive a w) = a
       \<and> files (world_of (authorize_interactive a w)) = files w
       \<and> disk_history (world_of (authorize_interactive a w)) = disk_history w"
    using authorize_interactive_error [of w a] by blast
  from e show "result_of (authorize_interactive a w) = Inr False" by simp
  from e show "auth_of (authorize_interactive a w) = a" by simp
  from e show "files (world_of (authorize_interactive a w)) = files w" by simp
  from e show "disk_history (world_of (authorize_interactive a w)) = disk_history w" by simp
qed

theorem failed_exchange_keeps_credentials_witness:
  "exchange_fails stored_world \<lparr>url = token_url example_auth, form = refresh_data example_auth\<rparr>
   \<and> exchange_fails denied_world
        \<lparr>url = token_url example_auth, form = exchange_data example_auth ''ABC''\<rparr>
   \<and> port_free denied_world
   \<and> nonempty (auth_error (fst (wait_for_callback
        (open_listener example_auth (announce example_auth denied_world)))))
   \<and> refresh_token (auth_of (refresh_access_token example_auth stored_world)) = JStr ''R1''
   \<and> files (world_of (refresh_access_token example_auth stored_world)) = files stored_world
   \<and> access_token (auth_of (exchange_code_for_tokens example_auth denied_world ''ABC''))
       = JStr ''T1''
   \<and> files (world_of (exchange_code_for_tokens example_auth denied_world ''ABC''))
       = files denied_world
   \<and> result_of (authorize_interactive example_auth denied_world) = Inr False
   \<and> auth_of (authorize_interactive example_auth denied_world) = example_auth
   \<and> files (world_of (authorize_interactive example_auth denied_world)) = files denied_world
   \<and> disk_history (world_of (authorize_interactive example_auth denied_world)) = []"
proof -
  have h1: "exchange_fails stored_world
      \<lparr>url = token_url example_auth, form = refresh_data example_auth\<rparr>"
    by (simp add: exchange_fails_def stored_world_def example_world_def)
  have h2: "exchange_fails denied_world
      \<lparr>url = token_url example_auth, form = exchange_data example_auth ''ABC''\<rparr>"
    by (simp add: exchange_fails_def denied_world_def)
  have h3: "port_free denied_world"
    by (simp add: denied_world_def stored_world_def example_world_def)
  have h4: "nonempty (auth_error (fst (wait_for_callback
      (open_listener example_auth (announce example_auth denied_world)))))"
    by (simp add: wait_for_callback_def open_listener_def announce_def denied_world_def
        stored_world_def example_world_def serve_loop.simps handle_request_def do_GET_def
        denied_callback_def server_timeout_def nonempty_def)
  have v: "refresh_token example_auth = JStr ''R1''" "access_token example_auth = JStr ''T1''"
    by (simp_all add: example_auth_def)
  have d: "disk_history denied_world = []"
    by (simp add: denied_world_def stored_world_def example_world_def)
  from failed_exchange_keeps_credentials [of stored_world example_auth "''ABC''"]
    failed_exchange_keeps_credentials [of denied_world example_auth "''ABC''"]
  show ?thesis
    using h1 h2 h3 h4 v d by simp
qed

subsection \<open>The supervisor\<close>











end
